theory Spec2Isabelle
  imports Complex_Main
begin

section \<open>JavaScript numbers\<close>

text \<open>
  Every quantity of the calculator is a JavaScript number. The model keeps the finite
  numbers as exact reals (rounding to the nearest double and overflow are idealised
  away) and keeps the three non-finite values apart, with the arithmetic JavaScript
  gives them: a division by zero is not an error, it yields an infinity or NaN, and NaN
  spreads through every later operation and makes every comparison false.
  The model has a single zero, read as \<open>+0\<close>: a non-zero number divided by zero is the
  infinity of the sign of the dividend.
\<close>

datatype jsnum = Num real | PosInf | NegInf | NaN

definition inf_of :: "bool \<Rightarrow> jsnum" where
  "inf_of pos = (if pos then PosInf else NegInf)"

fun jneg :: "jsnum \<Rightarrow> jsnum" where
  "jneg (Num a) = Num (- a)"
| "jneg PosInf = NegInf"
| "jneg NegInf = PosInf"
| "jneg NaN = NaN"

fun jadd :: "jsnum \<Rightarrow> jsnum \<Rightarrow> jsnum" where
  "jadd (Num a) (Num b) = Num (a + b)"
| "jadd NaN y = NaN"
| "jadd x NaN = NaN"
| "jadd PosInf NegInf = NaN"
| "jadd NegInf PosInf = NaN"
| "jadd PosInf y = PosInf"
| "jadd x PosInf = PosInf"
| "jadd NegInf y = NegInf"
| "jadd x NegInf = NegInf"

definition jsub :: "jsnum \<Rightarrow> jsnum \<Rightarrow> jsnum" where
  "jsub x y = jadd x (jneg y)"

fun jmul :: "jsnum \<Rightarrow> jsnum \<Rightarrow> jsnum" where
  "jmul (Num a) (Num b) = Num (a * b)"
| "jmul NaN y = NaN"
| "jmul x NaN = NaN"
| "jmul (Num a) PosInf = (if a = 0 then NaN else inf_of (0 < a))"
| "jmul (Num a) NegInf = (if a = 0 then NaN else inf_of (a < 0))"
| "jmul PosInf (Num b) = (if b = 0 then NaN else inf_of (0 < b))"
| "jmul NegInf (Num b) = (if b = 0 then NaN else inf_of (b < 0))"
| "jmul PosInf PosInf = PosInf"
| "jmul PosInf NegInf = NegInf"
| "jmul NegInf PosInf = NegInf"
| "jmul NegInf NegInf = PosInf"

fun jdiv :: "jsnum \<Rightarrow> jsnum \<Rightarrow> jsnum" where
  "jdiv (Num a) (Num b) =
     (if b \<noteq> 0 then Num (a / b) else if a = 0 then NaN else inf_of (0 < a))"
| "jdiv NaN y = NaN"
| "jdiv x NaN = NaN"
| "jdiv (Num a) PosInf = Num 0"
| "jdiv (Num a) NegInf = Num 0"
| "jdiv PosInf (Num b) = inf_of (0 \<le> b)"
| "jdiv NegInf (Num b) = inf_of (b < 0)"
| "jdiv PosInf y = NaN"
| "jdiv NegInf y = NaN"

text \<open>\<open>Math.sqrt\<close>: NaN below zero.\<close>

fun jsqrt :: "jsnum \<Rightarrow> jsnum" where
  "jsqrt (Num a) = (if a < 0 then NaN else Num (sqrt a))"
| "jsqrt PosInf = PosInf"
| "jsqrt NegInf = NaN"
| "jsqrt NaN = NaN"

text \<open>\<open>Math.round\<close>: the nearest integer, a half rounded up; non-finite values unchanged.\<close>

fun jround :: "jsnum \<Rightarrow> jsnum" where
  "jround (Num a) = Num (of_int \<lfloor>a + 1 / 2\<rfloor>)"
| "jround x = x"

text \<open>The comparisons \<open><\<close>, \<open>>\<close> and \<open><=\<close>: false as soon as one side is NaN.\<close>

fun jlt :: "jsnum \<Rightarrow> jsnum \<Rightarrow> bool" where
  "jlt (Num a) (Num b) = (a < b)"
| "jlt NaN y = False"
| "jlt x NaN = False"
| "jlt x NegInf = False"
| "jlt PosInf y = False"
| "jlt NegInf y = True"
| "jlt x PosInf = True"

definition jgt :: "jsnum \<Rightarrow> jsnum \<Rightarrow> bool" where
  "jgt x y = jlt y x"

fun jle :: "jsnum \<Rightarrow> jsnum \<Rightarrow> bool" where
  "jle (Num a) (Num b) = (a \<le> b)"
| "jle NaN y = False"
| "jle x NaN = False"
| "jle NegInf y = True"
| "jle x PosInf = True"
| "jle x NegInf = False"
| "jle PosInf y = False"

fun is_finite :: "jsnum \<Rightarrow> bool" where
  "is_finite (Num a) = True"
| "is_finite x = False"

section \<open>The component state\<close>

text \<open>
  The \<open>useState\<close> cells that the calculation reads, as one record. The numeric cells hold
  finite numbers (they come from \<open>parseFloat\<close>/\<open>parseInt\<close> of the controls, or from the
  defaults). \<open>clusterSizeCV\<close> exists in the second version of the component only; the
  first version has no such cell and its functions never read the field.
  \<open>measurementModel\<close> is the string of the radio group: "sum", "rasch" or "mfrm".
\<close>

record params =
  powerLevel :: real
  alpha :: real
  iccHamd :: real
  iccRetention :: real
  r2Hamd :: real
  r2Retention :: real
  patientsPerCluster :: real
  clusterSizeCV :: real
  controlAttrition :: real
  treatmentRatio :: real
  measurementModel :: string
  sumScoreReliability :: real
  raschReliability :: real
  raterVarianceProp :: real
  targetIcc :: real
  expectedIcc :: real
  iccClusterCorr :: real
  nFollowups :: real
  survivalEfficiency :: real

definition useRasch :: "params \<Rightarrow> bool" where
  "useRasch p = (measurementModel p = ''rasch'' \<or> measurementModel p = ''mfrm'')"

definition useMFRM :: "params \<Rightarrow> bool" where
  "useMFRM p = (measurementModel p = ''mfrm'')"

section \<open>Z-scores\<close>

text \<open>
  \<open>z[key] || fallback\<close>: the object is looked up at the key; a missing entry is
  \<open>undefined\<close>, and \<open>||\<close> replaces a falsy value (undefined or zero) by the fallback.
\<close>

definition or_default :: "real option \<Rightarrow> real \<Rightarrow> real" where
  "or_default v d = (case v of None \<Rightarrow> d | Some x \<Rightarrow> if x = 0 then d else x)"

definition zAlpha_table :: "(real \<times> real) list" where
  "zAlpha_table = [(0.05, 1.96), (0.025, 2.24), (0.01, 2.58)]"

definition zAlpha :: "real \<Rightarrow> real" where
  "zAlpha a = or_default (map_of zAlpha_table a) 2.24"

definition zBeta_table :: "(real \<times> real) list" where
  "zBeta_table = [(0.7, 0.524), (0.75, 0.674), (0.8, 0.842), (0.85, 1.036), (0.9, 1.282)]"

definition zBeta :: "real \<Rightarrow> real" where
  "zBeta pw = or_default (map_of zBeta_table pw) 0.842"

section \<open>Measurement model variance adjustment\<close>

definition measurementVarianceMultiplier :: "params \<Rightarrow> jsnum" where
  "measurementVarianceMultiplier p =
    (let multiplier = Num 1;
         multiplier =
           (if useRasch p then
              (let sumScoreError = jsub (Num 1) (Num (sumScoreReliability p));
                   raschError = jsub (Num 1) (Num (raschReliability p));
                   errorReduction = jdiv (jsub sumScoreError raschError) sumScoreError
               in jmul multiplier (jsub (Num 1) (jmul errorReduction sumScoreError)))
            else multiplier);
         multiplier =
           (if useMFRM p then jmul multiplier (jsub (Num 1) (Num (raterVarianceProp p)))
            else multiplier)
     in multiplier)"

section \<open>HAM-D minimum detectable effect\<close>

record hamd_result =
  h_mde :: jsnum
  h_baselineMDE :: jsnum
  h_effectSize :: jsnum
  h_nClusters :: jsnum
  h_nTreatmentClusters :: jsnum
  h_nControlClusters :: jsnum
  h_nCompleters :: jsnum
  h_varianceReduction :: jsnum

text \<open>
  The design effect for clustering, the local constant \<open>designEffect\<close> of
  \<open>calcHamdMDE\<close>: first as src/src/App.js computes it, then as the version with the
  \<open>clusterSizeCV\<close> cell computes it.
\<close>

definition designEffectHamd :: "params \<Rightarrow> jsnum" where
  "designEffectHamd p =
    (let clusterSize = jmul (Num (patientsPerCluster p)) (jsub (Num 1) (Num (controlAttrition p)))
     in jadd (Num 1) (jmul (jsub clusterSize (Num 1)) (Num (iccHamd p))))"

definition designEffectHamd_cv :: "params \<Rightarrow> jsnum" where
  "designEffectHamd_cv p =
    (let clusterSize = jmul (Num (patientsPerCluster p)) (jsub (Num 1) (Num (controlAttrition p)))
     in jmul (jadd (Num 1) (jmul (jsub clusterSize (Num 1)) (Num (iccHamd p))))
             (jadd (Num 1) (jmul (Num (clusterSizeCV p)) (Num (clusterSizeCV p)))))"

text \<open>\<open>calcHamdMDE\<close> of src/src/App.js.\<close>

definition calcHamdMDE :: "params \<Rightarrow> real \<Rightarrow> hamd_result" where
  "calcHamdMDE p totalN =
    (let nClusters = jround (jdiv (Num totalN) (Num (patientsPerCluster p)));
         treatmentProportion =
           jdiv (Num (treatmentRatio p)) (jadd (Num (treatmentRatio p)) (Num 1));
         nTreatmentClusters = jround (jmul nClusters treatmentProportion);
         nControlClusters = jsub nClusters nTreatmentClusters;
         nTreatmentPatients =
           jmul (jmul nTreatmentClusters (Num (patientsPerCluster p)))
                (jsub (Num 1) (Num (controlAttrition p)));
         nControlPatients =
           jmul (jmul nControlClusters (Num (patientsPerCluster p)))
                (jsub (Num 1) (Num (controlAttrition p)));
         nHarmonic =
           jdiv (jmul (jmul (Num 2) nTreatmentPatients) nControlPatients)
                (jadd nTreatmentPatients nControlPatients);
         sigma2 = Num 49;
         sigma2Adj = jmul sigma2 (jsub (Num 1) (Num (r2Hamd p)));
         designEffect = designEffectHamd p;
         ipcwVIF = Num 1.2;
         repeatedMeasuresGain = Num 1.43;
         baseVariance = jdiv (jmul (jmul sigma2Adj designEffect) ipcwVIF) repeatedMeasuresGain;
         netVariance = jmul baseVariance (measurementVarianceMultiplier p);
         z = jadd (Num (zAlpha (alpha p))) (Num (zBeta (powerLevel p)));
         baselineMDE = jmul z (jsqrt (jdiv (jmul (Num 2) baseVariance) nHarmonic));
         mde = jmul z (jsqrt (jdiv (jmul (Num 2) netVariance) nHarmonic))
     in \<lparr> h_mde = mde,
          h_baselineMDE = baselineMDE,
          h_effectSize = jdiv mde (Num 7),
          h_nClusters = nClusters,
          h_nTreatmentClusters = nTreatmentClusters,
          h_nControlClusters = nControlClusters,
          h_nCompleters = jround (jadd nTreatmentPatients nControlPatients),
          h_varianceReduction =
            jmul (jsub (Num 1) (measurementVarianceMultiplier p)) (Num 100) \<rparr>)"

text \<open>\<open>calcHamdMDE\<close> of the version with \<open>clusterSizeCV\<close>.\<close>

definition calcHamdMDE_cv :: "params \<Rightarrow> real \<Rightarrow> hamd_result" where
  "calcHamdMDE_cv p totalN =
    (let nClusters = jround (jdiv (Num totalN) (Num (patientsPerCluster p)));
         treatmentProportion =
           jdiv (Num (treatmentRatio p)) (jadd (Num (treatmentRatio p)) (Num 1));
         nTreatmentClusters = jround (jmul nClusters treatmentProportion);
         nControlClusters = jsub nClusters nTreatmentClusters;
         nTreatmentPatients =
           jmul (jmul nTreatmentClusters (Num (patientsPerCluster p)))
                (jsub (Num 1) (Num (controlAttrition p)));
         nControlPatients =
           jmul (jmul nControlClusters (Num (patientsPerCluster p)))
                (jsub (Num 1) (Num (controlAttrition p)));
         nHarmonic =
           jdiv (jmul (jmul (Num 2) nTreatmentPatients) nControlPatients)
                (jadd nTreatmentPatients nControlPatients);
         sigma2 = Num 49;
         sigma2Adj = jmul sigma2 (jsub (Num 1) (Num (r2Hamd p)));
         designEffect = designEffectHamd_cv p;
         ipcwVIF = Num 1.2;
         repeatedMeasuresGain = Num 1.43;
         baseVariance = jdiv (jmul (jmul sigma2Adj designEffect) ipcwVIF) repeatedMeasuresGain;
         netVariance = jmul baseVariance (measurementVarianceMultiplier p);
         z = jadd (Num (zAlpha (alpha p))) (Num (zBeta (powerLevel p)));
         baselineMDE = jmul z (jsqrt (jdiv (jmul (Num 2) baseVariance) nHarmonic));
         mde = jmul z (jsqrt (jdiv (jmul (Num 2) netVariance) nHarmonic))
     in \<lparr> h_mde = mde,
          h_baselineMDE = baselineMDE,
          h_effectSize = jdiv mde (Num 7),
          h_nClusters = nClusters,
          h_nTreatmentClusters = nTreatmentClusters,
          h_nControlClusters = nControlClusters,
          h_nCompleters = jround (jadd nTreatmentPatients nControlPatients),
          h_varianceReduction =
            jmul (jsub (Num 1) (measurementVarianceMultiplier p)) (Num 100) \<rparr>)"

section \<open>Retention minimum detectable effect\<close>

record retention_result =
  r_mde :: jsnum
  r_controlRate :: jsnum
  r_treatmentRate :: jsnum
  r_nClusters :: jsnum
  r_binaryMDE :: jsnum

text \<open>\<open>calcRetentionMDE\<close> of src/src/App.js.\<close>

definition calcRetentionMDE :: "params \<Rightarrow> real \<Rightarrow> retention_result" where
  "calcRetentionMDE p totalN =
    (let nClusters = jround (jdiv (Num totalN) (Num (patientsPerCluster p)));
         treatmentProportion =
           jdiv (Num (treatmentRatio p)) (jadd (Num (treatmentRatio p)) (Num 1));
         nTreatmentClusters = jround (jmul nClusters treatmentProportion);
         nControlClusters = jsub nClusters nTreatmentClusters;
         nTreatment = jmul nTreatmentClusters (Num (patientsPerCluster p));
         nControl = jmul nControlClusters (Num (patientsPerCluster p));
         designEffect =
           jadd (Num 1) (jmul (jsub (Num (patientsPerCluster p)) (Num 1)) (Num (iccRetention p)));
         p0 = Num (controlAttrition p);
         baseSE =
           jsqrt (jmul (jmul p0 (jsub (Num 1) p0))
                       (jadd (jdiv (Num 1) nTreatment) (jdiv (Num 1) nControl)));
         clusteredSE = jmul baseSE (jsqrt designEffect);
         adjustedSE = jmul clusteredSE (jsqrt (jsub (Num 1) (Num (r2Retention p))));
         survivalSE = jdiv adjustedSE (jsqrt (Num (survivalEfficiency p)));
         z = jadd (Num (zAlpha (alpha p))) (Num (zBeta (powerLevel p)));
         mde = jmul z survivalSE
     in \<lparr> r_mde = jmul mde (Num 100),
          r_controlRate = jmul p0 (Num 100),
          r_treatmentRate = jmul (jsub p0 mde) (Num 100),
          r_nClusters = nClusters,
          r_binaryMDE = jmul (jmul z adjustedSE) (Num 100) \<rparr>)"

text \<open>\<open>calcRetentionMDE\<close> of the version with \<open>clusterSizeCV\<close>.\<close>

definition calcRetentionMDE_cv :: "params \<Rightarrow> real \<Rightarrow> retention_result" where
  "calcRetentionMDE_cv p totalN =
    (let nClusters = jround (jdiv (Num totalN) (Num (patientsPerCluster p)));
         treatmentProportion =
           jdiv (Num (treatmentRatio p)) (jadd (Num (treatmentRatio p)) (Num 1));
         nTreatmentClusters = jround (jmul nClusters treatmentProportion);
         nControlClusters = jsub nClusters nTreatmentClusters;
         nTreatment = jmul nTreatmentClusters (Num (patientsPerCluster p));
         nControl = jmul nControlClusters (Num (patientsPerCluster p));
         designEffect =
           jmul (jadd (Num 1)
                   (jmul (jsub (Num (patientsPerCluster p)) (Num 1)) (Num (iccRetention p))))
                (jadd (Num 1) (jmul (Num (clusterSizeCV p)) (Num (clusterSizeCV p))));
         p0 = Num (controlAttrition p);
         baseSE =
           jsqrt (jmul (jmul p0 (jsub (Num 1) p0))
                       (jadd (jdiv (Num 1) nTreatment) (jdiv (Num 1) nControl)));
         clusteredSE = jmul baseSE (jsqrt designEffect);
         adjustedSE = jmul clusteredSE (jsqrt (jsub (Num 1) (Num (r2Retention p))));
         survivalSE = jdiv adjustedSE (jsqrt (Num (survivalEfficiency p)));
         z = jadd (Num (zAlpha (alpha p))) (Num (zBeta (powerLevel p)));
         mde = jmul z survivalSE
     in \<lparr> r_mde = jmul mde (Num 100),
          r_controlRate = jmul p0 (Num 100),
          r_treatmentRate = jmul (jsub p0 mde) (Num 100),
          r_nClusters = nClusters,
          r_binaryMDE = jmul (jmul z adjustedSE) (Num 100) \<rparr>)"

section \<open>ICC validation precision\<close>

record icc_result =
  i_nTreatmentPatients :: jsnum
  i_nTreatmentClusters :: jsnum
  i_nObservations :: jsnum
  i_nEffective :: jsnum
  i_seIcc :: jsnum
  i_ciHalfWidth :: jsnum
  i_lowerBound :: jsnum
  i_upperBound :: jsnum
  i_canRuleOutPoor :: bool

text \<open>\<open>calcIccValidation\<close> of src/src/App.js.\<close>

definition calcIccValidation :: "params \<Rightarrow> real \<Rightarrow> icc_result" where
  "calcIccValidation p totalN =
    (let nClusters = jround (jdiv (Num totalN) (Num (patientsPerCluster p)));
         treatmentProportion =
           jdiv (Num (treatmentRatio p)) (jadd (Num (treatmentRatio p)) (Num 1));
         nTreatmentClusters = jround (jmul nClusters treatmentProportion);
         nTreatmentPatients =
           jmul (jmul nTreatmentClusters (Num (patientsPerCluster p)))
                (jsub (Num 1) (Num (controlAttrition p)));
         nObservations = jmul nTreatmentPatients (Num (nFollowups p));
         avgObsPerCluster = jdiv nObservations nTreatmentClusters;
         designEffect =
           jadd (Num 1) (jmul (jsub avgObsPerCluster (Num 1)) (Num (iccClusterCorr p)));
         nEffective = jdiv nObservations designEffect;
         seIcc =
           jmul (jsub (Num 1) (jmul (Num (expectedIcc p)) (Num (expectedIcc p))))
                (jsqrt (jdiv (Num 2) (jsub nEffective (Num 1))));
         ciHalfWidth = jmul (Num 1.96) seIcc;
         lowerBound = jsub (Num (expectedIcc p)) ciHalfWidth;
         canRuleOutPoor = jgt lowerBound (Num (targetIcc p))
     in \<lparr> i_nTreatmentPatients = jround nTreatmentPatients,
          i_nTreatmentClusters = nTreatmentClusters,
          i_nObservations = jround nObservations,
          i_nEffective = jround nEffective,
          i_seIcc = seIcc,
          i_ciHalfWidth = ciHalfWidth,
          i_lowerBound = lowerBound,
          i_upperBound = jadd (Num (expectedIcc p)) ciHalfWidth,
          i_canRuleOutPoor = canRuleOutPoor \<rparr>)"

text \<open>\<open>calcIccValidation\<close> of the version with \<open>clusterSizeCV\<close> (the same text).\<close>

definition calcIccValidation_cv :: "params \<Rightarrow> real \<Rightarrow> icc_result" where
  "calcIccValidation_cv p totalN =
    (let nClusters = jround (jdiv (Num totalN) (Num (patientsPerCluster p)));
         treatmentProportion =
           jdiv (Num (treatmentRatio p)) (jadd (Num (treatmentRatio p)) (Num 1));
         nTreatmentClusters = jround (jmul nClusters treatmentProportion);
         nTreatmentPatients =
           jmul (jmul nTreatmentClusters (Num (patientsPerCluster p)))
                (jsub (Num 1) (Num (controlAttrition p)));
         nObservations = jmul nTreatmentPatients (Num (nFollowups p));
         avgObsPerCluster = jdiv nObservations nTreatmentClusters;
         designEffect =
           jadd (Num 1) (jmul (jsub avgObsPerCluster (Num 1)) (Num (iccClusterCorr p)));
         nEffective = jdiv nObservations designEffect;
         seIcc =
           jmul (jsub (Num 1) (jmul (Num (expectedIcc p)) (Num (expectedIcc p))))
                (jsqrt (jdiv (Num 2) (jsub nEffective (Num 1))));
         ciHalfWidth = jmul (Num 1.96) seIcc;
         lowerBound = jsub (Num (expectedIcc p)) ciHalfWidth;
         canRuleOutPoor = jgt lowerBound (Num (targetIcc p))
     in \<lparr> i_nTreatmentPatients = jround nTreatmentPatients,
          i_nTreatmentClusters = nTreatmentClusters,
          i_nObservations = jround nObservations,
          i_nEffective = jround nEffective,
          i_seIcc = seIcc,
          i_ciHalfWidth = ciHalfWidth,
          i_lowerBound = lowerBound,
          i_upperBound = jadd (Num (expectedIcc p)) ciHalfWidth,
          i_canRuleOutPoor = canRuleOutPoor \<rparr>)"

section \<open>Curve data\<close>

record curve_point =
  c_n :: int
  c_clusters :: jsnum
  c_hamdMDE :: jsnum
  c_hamdBaselineMDE :: jsnum
  c_hamdD :: jsnum
  c_retentionMDE :: jsnum
  c_retentionTreatment :: jsnum
  c_iccCiWidth :: jsnum
  c_iccLowerBound :: jsnum

definition curve_entry ::
  "(real \<Rightarrow> hamd_result) \<Rightarrow> (real \<Rightarrow> retention_result) \<Rightarrow> (real \<Rightarrow> icc_result)
    \<Rightarrow> int \<Rightarrow> curve_point" where
  "curve_entry calcH calcR calcI n =
    (let hamd = calcH (of_int n);
         retention = calcR (of_int n);
         iccVal = calcI (of_int n)
     in \<lparr> c_n = n,
          c_clusters = h_nClusters hamd,
          c_hamdMDE = h_mde hamd,
          c_hamdBaselineMDE = h_baselineMDE hamd,
          c_hamdD = h_effectSize hamd,
          c_retentionMDE = r_mde retention,
          c_retentionTreatment = r_treatmentRate retention,
          c_iccCiWidth = jmul (i_ciHalfWidth iccVal) (Num 2),
          c_iccLowerBound = i_lowerBound iccVal \<rparr>)"

text \<open>
  The loop \<open>for (let n = 400; n <= 1300; n += 50)\<close> from its counter onwards; the
  pushes onto \<open>data\<close> become the list built front to back.
\<close>

function powerData_loop ::
  "(real \<Rightarrow> hamd_result) \<Rightarrow> (real \<Rightarrow> retention_result) \<Rightarrow> (real \<Rightarrow> icc_result)
    \<Rightarrow> int \<Rightarrow> curve_point list" where
  "powerData_loop calcH calcR calcI n =
    (if n \<le> 1300
     then curve_entry calcH calcR calcI n # powerData_loop calcH calcR calcI (n + 50)
     else [])"
  by pat_completeness auto
termination
  by (relation "measure (\<lambda>(calcH, calcR, calcI, n). nat (1301 - n))") auto

declare powerData_loop.simps [simp del]

definition powerData :: "params \<Rightarrow> curve_point list" where
  "powerData p =
    powerData_loop (calcHamdMDE p) (calcRetentionMDE p) (calcIccValidation p) 400"

definition powerData_cv :: "params \<Rightarrow> curve_point list" where
  "powerData_cv p =
    powerData_loop (calcHamdMDE_cv p) (calcRetentionMDE_cv p) (calcIccValidation_cv p) 400"

section \<open>Sample size for a target effect\<close>

text \<open>
  \<open>findNForMDE\<close> returns a number or the string ">1300". The property read from the
  result, \<open>result[field]\<close>, is a selector into the result record; a property that the
  record lacks reads as \<open>undefined\<close>, which compares as NaN.
\<close>

datatype search_result = FoundN int | Text string

function findNForMDE_loop :: "jsnum \<Rightarrow> (real \<Rightarrow> 'r) \<Rightarrow> ('r \<Rightarrow> jsnum) \<Rightarrow> int \<Rightarrow> search_result" where
  "findNForMDE_loop targetMDE calcFunc field n =
    (if n \<le> 1300
     then (let result = calcFunc (of_int n)
           in if jle (field result) targetMDE then FoundN n
              else findNForMDE_loop targetMDE calcFunc field (n + 10))
     else Text ''>1300'')"
  by pat_completeness auto
termination
  by (relation "measure (\<lambda>(targetMDE, calcFunc, field, n). nat (1301 - n))") auto

declare findNForMDE_loop.simps [simp del]

definition findNForMDE :: "jsnum \<Rightarrow> (real \<Rightarrow> 'r) \<Rightarrow> ('r \<Rightarrow> jsnum) \<Rightarrow> search_result" where
  "findNForMDE targetMDE calcFunc field = findNForMDE_loop targetMDE calcFunc field 400"

section \<open>Configurations and auxiliary notions\<close>

text \<open>The initial state of the component: the \<open>useState\<close> defaults (with \<open>clusterSizeCV\<close> 0).\<close>

definition defaults :: params where
  "defaults = \<lparr> powerLevel = 0.8, alpha = 0.025, iccHamd = 0.04, iccRetention = 0.05,
      r2Hamd = 0.35, r2Retention = 0.05, patientsPerCluster = 10, clusterSizeCV = 0,
      controlAttrition = 0.3, treatmentRatio = 3, measurementModel = ''sum'',
      sumScoreReliability = 0.86, raschReliability = 0.91, raterVarianceProp = 0.07,
      targetIcc = 0.75, expectedIcc = 0.8, iccClusterCorr = 0.03, nFollowups = 4,
      survivalEfficiency = 4 \<rparr>"

text \<open>The configuration of the end-to-end example: the cells it fixes, on any state.\<close>

definition endToEnd :: "params \<Rightarrow> params" where
  "endToEnd p = p\<lparr> patientsPerCluster := 10, treatmentRatio := 3, controlAttrition := 0.3,
     iccHamd := 0.04, r2Hamd := 0.35, powerLevel := 0.8, alpha := 0.025,
     measurementModel := ''sum'' \<rparr>"


text \<open>A value that is a number at least zero, plus infinity or NaN: what a square root returns.\<close>

fun nonneg_or_nan :: "jsnum \<Rightarrow> bool" where
  "nonneg_or_nan (Num a) = (0 \<le> a)"
| "nonneg_or_nan PosInf = True"
| "nonneg_or_nan NaN = True"
| "nonneg_or_nan NegInf = False"

text \<open>
  The cluster counts as integers, for the statements about them: the number of clusters
  \<open>Math.round (totalN / patientsPerCluster)\<close>, the treatment clusters
  \<open>Math.round (nClusters * treatmentProportion)\<close>, and the completers of an arm of
  \<open>k\<close> clusters.
\<close>

definition nClustersZ :: "params \<Rightarrow> real \<Rightarrow> int" where
  "nClustersZ p totalN = \<lfloor>totalN / patientsPerCluster p + 1 / 2\<rfloor>"

definition nTreatmentZ :: "params \<Rightarrow> real \<Rightarrow> int" where
  "nTreatmentZ p totalN =
    \<lfloor>of_int (nClustersZ p totalN) * (treatmentRatio p / (treatmentRatio p + 1)) + 1 / 2\<rfloor>"

definition completers :: "params \<Rightarrow> int \<Rightarrow> real" where
  "completers p k = of_int k * patientsPerCluster p * (1 - controlAttrition p)"


text \<open>The sample sizes that \<open>findNForMDE\<close> scans: 400, 410, ..., 1300.\<close>

definition on_grid :: "int \<Rightarrow> bool" where
  "on_grid n = (400 \<le> n \<and> n \<le> 1300 \<and> (n - 400) mod 10 = 0)"

section \<open>Arithmetic on finite numbers\<close>

lemma jsub_Num [simp]: "jsub (Num a) (Num b) = Num (a - b)"
  by (simp add: jsub_def)

lemma jdiv_one [simp]: "jdiv x (Num 1) = x"
  by (cases x) (simp_all add: inf_of_def)

lemma nonneg_or_nan_jsqrt: "nonneg_or_nan (jsqrt x)"
  by (cases x) simp_all

lemma nonneg_or_nan_jmul: "0 \<le> c \<Longrightarrow> nonneg_or_nan x \<Longrightarrow> nonneg_or_nan (jmul (Num c) x)"
  by (cases x) (simp_all add: inf_of_def)

lemma lower_bound_not_above:
  "nonneg_or_nan x \<Longrightarrow> e \<le> t \<Longrightarrow> \<not> jgt (jsub (Num e) x) (Num t)"
  by (cases x) (simp_all add: jgt_def jsub_def)

lemma measurementVarianceMultiplier_sum:
  "measurementModel p = ''sum'' \<Longrightarrow> measurementVarianceMultiplier p = Num 1"
  by (simp add: measurementVarianceMultiplier_def useRasch_def useMFRM_def)

lemma c_n_curve_entry [simp]: "c_n (curve_entry calcH calcR calcI n) = n"
  by (simp add: curve_entry_def Let_def)

lemma powerData_loop_totalN:
  "map c_n (powerData_loop calcH calcR calcI 400) =
    [400, 450, 500, 550, 600, 650, 700, 750, 800, 850, 900, 950, 1000, 1050, 1100, 1150,
     1200, 1250, 1300]"
  by (simp add: powerData_loop.simps)

section \<open>End-to-end example\<close>

text \<open>
  C1. In the configuration patientsPerCluster = 10, treatmentRatio = 3, controlAttrition
  = 0.30, iccHamd = 0.04, r2Hamd = 0.35, power = 0.80, alpha = 0.025 and the sum-score
  model, at totalN = 1000, \<open>calcHamdMDE\<close> returns 100 clusters, 75 of them treatment and
  25 control, 700 completers, and its mde is the closed form
  \<open>(zAlpha + zBeta) \<times> sqrt (2 \<times> netVariance / nHarmonic)\<close> with zAlpha = 2.24, zBeta =
  0.842, netVariance = 49 \<times> (1 - 0.35) \<times> designEffect \<times> 1.2 / 1.43 and nHarmonic the
  harmonic mean of 525 and 175 completers.
\<close>

theorem calcHamdMDE_end_to_end:
  "h_nClusters (calcHamdMDE (endToEnd p) 1000) = Num 100
   \<and> h_nTreatmentClusters (calcHamdMDE (endToEnd p) 1000) = Num 75
   \<and> h_nControlClusters (calcHamdMDE (endToEnd p) 1000) = Num 25
   \<and> h_nCompleters (calcHamdMDE (endToEnd p) 1000) = Num 700
   \<and> h_mde (calcHamdMDE (endToEnd p) 1000) =
       Num ((2.24 + 0.842)
            * sqrt (2 * (7\<^sup>2 * (1 - 0.35) * (1 + (10 * (1 - 0.3) - 1) * 0.04) * 1.2 / 1.43)
                    / (2 * 525 * 175 / (525 + 175))))"
  by (simp add: calcHamdMDE_def endToEnd_def Let_def designEffectHamd_def
      measurementVarianceMultiplier_sum
      zAlpha_def zBeta_def zAlpha_table_def zBeta_table_def or_default_def)

section \<open>Design effect of the severity outcome\<close>





section \<open>Measurement model multiplier at perfect sum-score reliability\<close>

text \<open>
  C4, as amended. With the Rasch adjustment active and sumScoreReliability = 1, the
  division by sumError = 0 is not guarded: the multiplier is NaN, whatever the other
  cells hold, under the Rasch model and under the rater model alike.
\<close>

theorem measurementVarianceMultiplier_at_reliability_one:
  assumes "useRasch p" and "sumScoreReliability p = 1"
  shows "measurementVarianceMultiplier p = NaN"
  using assms by (simp add: measurementVarianceMultiplier_def inf_of_def Let_def jsub_def)

theorem measurementVarianceMultiplier_at_reliability_one_witness:
  "useRasch (defaults\<lparr>measurementModel := ''mfrm'', sumScoreReliability := 1\<rparr>)
   \<and> sumScoreReliability (defaults\<lparr>measurementModel := ''mfrm'', sumScoreReliability := 1\<rparr>) = 1
   \<and> measurementVarianceMultiplier
        (defaults\<lparr>measurementModel := ''mfrm'', sumScoreReliability := 1\<rparr>) = NaN"
  using measurementVarianceMultiplier_at_reliability_one [of "defaults\<lparr>measurementModel := ''mfrm'', sumScoreReliability := 1\<rparr>"]
  by (simp add: useRasch_def defaults_def)

text \<open>
  C4 as stated fails: under the Rasch model with sumScoreReliability = 1 (the other
  cells at their defaults) the multiplier is NaN, not a finite value.
\<close>

theorem measurementVarianceMultiplier_unguarded:
  "measurementVarianceMultiplier
     (defaults\<lparr>measurementModel := ''rasch'', sumScoreReliability := 1\<rparr>) = NaN
   \<and> \<not> is_finite (measurementVarianceMultiplier
          (defaults\<lparr>measurementModel := ''rasch'', sumScoreReliability := 1\<rparr>))"
  by (simp add: measurementVarianceMultiplier_def useRasch_def useMFRM_def defaults_def
      inf_of_def jsub_def)

section \<open>Binary comparison value of the retention outcome\<close>

text \<open>
  C6. The binaryMDE that \<open>calcRetentionMDE\<close> returns is the mde the same call returns
  once survivalEfficiency is set to 1, every other cell unchanged; in both versions.
\<close>

theorem calcRetentionMDE_binaryMDE:
  "r_binaryMDE (calcRetentionMDE p totalN) =
     r_mde (calcRetentionMDE (p\<lparr>survivalEfficiency := 1\<rparr>) totalN)
   \<and> r_binaryMDE (calcRetentionMDE_cv p totalN) =
       r_mde (calcRetentionMDE_cv (p\<lparr>survivalEfficiency := 1\<rparr>) totalN)"
  by (simp add: calcRetentionMDE_def calcRetentionMDE_cv_def Let_def)

section \<open>ICC validation when the expected ICC does not exceed the target\<close>

text \<open>
  C7. When expectedIcc is at most targetIcc (expectedIcc a correlation, at most 1 in
  absolute value), \<open>calcIccValidation\<close> returns canRuleOutPoor = false at every totalN
  and for every value of the other cells, in both versions. The function is total: its
  arithmetic cannot throw, and a division by zero or a negative square root only makes
  the bound infinite or NaN, which compares as not above the target.
\<close>

theorem calcIccValidation_cannot_rule_out:
  assumes "expectedIcc p \<le> targetIcc p" and "\<bar>expectedIcc p\<bar> \<le> 1"
  shows "\<not> i_canRuleOutPoor (calcIccValidation p totalN)
         \<and> \<not> i_canRuleOutPoor (calcIccValidation_cv p totalN)"
proof -
  have "(expectedIcc p)\<^sup>2 \<le> 1\<^sup>2"
    using assms(2) by (simp only: abs_le_square_iff [symmetric] abs_one)
  then have "0 \<le> 1 - expectedIcc p * expectedIcc p"
    by (simp add: power2_eq_square)
  then show ?thesis
    using assms(1)
    by (simp add: calcIccValidation_def calcIccValidation_cv_def Let_def
        lower_bound_not_above nonneg_or_nan_jmul nonneg_or_nan_jsqrt)
qed

theorem calcIccValidation_cannot_rule_out_witness:
  "expectedIcc (defaults\<lparr>expectedIcc := 0.7\<rparr>) \<le> targetIcc (defaults\<lparr>expectedIcc := 0.7\<rparr>)
   \<and> \<bar>expectedIcc (defaults\<lparr>expectedIcc := 0.7\<rparr>)\<bar> \<le> 1
   \<and> \<not> i_canRuleOutPoor (calcIccValidation (defaults\<lparr>expectedIcc := 0.7\<rparr>) 1000)
   \<and> \<not> i_canRuleOutPoor (calcIccValidation_cv (defaults\<lparr>expectedIcc := 0.7\<rparr>) 1000)"
  using calcIccValidation_cannot_rule_out [of "defaults\<lparr>expectedIcc := 0.7\<rparr>" 1000]
  by (simp add: defaults_def)

section \<open>Curve data\<close>

text \<open>
  C8. The sweep from 400 to 1300 in steps of 50 produces 19 points, whose sample sizes
  are 400, 450, ..., 1300 in strictly ascending order; in both versions.
\<close>

theorem powerData_points:
  "map c_n (powerData p) =
     [400, 450, 500, 550, 600, 650, 700, 750, 800, 850, 900, 950, 1000, 1050, 1100, 1150,
      1200, 1250, 1300]
   \<and> length (powerData p) = 19
   \<and> sorted_wrt (<) (map c_n (powerData p))
   \<and> map c_n (powerData_cv p) = map c_n (powerData p)
   \<and> length (powerData_cv p) = 19"
proof -
  have a: "map c_n (powerData p) =
     [400, 450, 500, 550, 600, 650, 700, 750, 800, 850, 900, 950, 1000, 1050, 1100, 1150,
      1200, 1250, 1300]"
    by (simp only: powerData_def powerData_loop_totalN)
  have b: "map c_n (powerData_cv p) = map c_n (powerData p)"
    by (simp only: powerData_def powerData_cv_def powerData_loop_totalN)
  have c: "length (powerData p) = 19"
    using arg_cong [OF a, of length] by simp
  have d: "length (powerData_cv p) = 19"
    using arg_cong [OF b, of length] c by simp
  have e: "sorted_wrt (<) (map c_n (powerData p))"
    by (simp add: a)
  from a b c d e show ?thesis by blast
qed

section \<open>The two versions of the component\<close>

text \<open>
  C10. When clusterSizeCV is 0 the two versions of the component return the same
  results from \<open>calcHamdMDE\<close>, \<open>calcRetentionMDE\<close> and \<open>calcIccValidation\<close>, at every
  totalN: the factor \<open>1 + clusterSizeCV\<^sup>2\<close>, the one difference of their formulas, is 1.
\<close>

theorem versions_agree_without_cv:
  assumes "clusterSizeCV p = 0"
  shows "calcHamdMDE_cv p totalN = calcHamdMDE p totalN
         \<and> calcRetentionMDE_cv p totalN = calcRetentionMDE p totalN
         \<and> calcIccValidation_cv p totalN = calcIccValidation p totalN"
  using assms
  by (simp add: calcHamdMDE_cv_def calcHamdMDE_def calcRetentionMDE_cv_def
      calcRetentionMDE_def calcIccValidation_cv_def calcIccValidation_def
      designEffectHamd_def designEffectHamd_cv_def)

theorem versions_agree_without_cv_witness:
  "clusterSizeCV defaults = 0
   \<and> calcHamdMDE_cv defaults 1000 = calcHamdMDE defaults 1000
   \<and> calcRetentionMDE_cv defaults 1000 = calcRetentionMDE defaults 1000
   \<and> calcIccValidation_cv defaults 1000 = calcIccValidation defaults 1000"
  using versions_agree_without_cv [of defaults 1000] by (simp add: defaults_def)

section \<open>The severity effect falls as the sample grows\<close>

lemma hamd_counts:
  assumes "patientsPerCluster p \<noteq> 0" "treatmentRatio p + 1 \<noteq> 0"
  shows "h_nTreatmentClusters (calcHamdMDE p N) = Num (of_int (nTreatmentZ p N))"
    and "h_nControlClusters (calcHamdMDE p N) = Num (of_int (nClustersZ p N - nTreatmentZ p N))"
    and "h_nTreatmentClusters (calcHamdMDE_cv p N) = Num (of_int (nTreatmentZ p N))"
    and "h_nControlClusters (calcHamdMDE_cv p N) = Num (of_int (nClustersZ p N - nTreatmentZ p N))"
  using assms
  by (simp_all add: calcHamdMDE_def calcHamdMDE_cv_def Let_def nClustersZ_def nTreatmentZ_def)

lemma counts_mono:
  assumes "0 < patientsPerCluster p" "0 < treatmentRatio p" "N1 \<le> N2"
  shows "nClustersZ p N1 \<le> nClustersZ p N2"
    and "nTreatmentZ p N1 \<le> nTreatmentZ p N2"
    and "nClustersZ p N1 - nTreatmentZ p N1 \<le> nClustersZ p N2 - nTreatmentZ p N2"
proof -
  let ?q = "treatmentRatio p / (treatmentRatio p + 1)"
  let ?k1 = "nClustersZ p N1" and ?k2 = "nClustersZ p N2"
  have q: "0 \<le> ?q" "?q \<le> 1" using assms(2) by simp_all
  have "N1 / patientsPerCluster p \<le> N2 / patientsPerCluster p"
    using assms(1,3) by (simp add: divide_right_mono)
  then show k: "?k1 \<le> ?k2"
    unfolding nClustersZ_def by (intro floor_mono) simp
  then have kq: "of_int ?k1 * ?q \<le> of_int ?k2 * ?q"
    using q(1) by (intro mult_right_mono) simp_all
  then show "nTreatmentZ p N1 \<le> nTreatmentZ p N2"
    unfolding nTreatmentZ_def by (intro floor_mono) simp
  have "of_int (?k2 - ?k1) * ?q \<le> of_int (?k2 - ?k1) * 1"
    using k q(2) by (intro mult_left_mono) simp_all
  then have "of_int ?k2 * ?q + 1 / 2 \<le> (of_int ?k1 * ?q + 1 / 2) + of_int (?k2 - ?k1)"
    by (simp add: algebra_simps)
  then have "\<lfloor>of_int ?k2 * ?q + 1 / 2\<rfloor> \<le> \<lfloor>(of_int ?k1 * ?q + 1 / 2) + of_int (?k2 - ?k1)\<rfloor>"
    by (rule floor_mono)
  then have "nTreatmentZ p N2 \<le> nTreatmentZ p N1 + (?k2 - ?k1)"
    unfolding nTreatmentZ_def by (simp only: floor_add_int)
  then show "?k1 - nTreatmentZ p N1 \<le> ?k2 - nTreatmentZ p N2"
    by simp
qed

lemma harmonic_mono:
  fixes T1 T2 C1 C2 :: real
  assumes "0 < T1" "T1 \<le> T2" "0 < C1" "C1 \<le> C2"
  shows "2 * T1 * C1 / (T1 + C1) \<le> 2 * T2 * C2 / (T2 + C2)"
proof -
  have a: "T1 * T2 * C1 \<le> T1 * T2 * C2"
    using assms by (intro mult_left_mono) simp_all
  have b: "T1 * (C1 * C2) \<le> T2 * (C1 * C2)"
    using assms by (intro mult_right_mono) simp_all
  have "T1 * C1 * (T2 + C2) \<le> T2 * C2 * (T1 + C1)"
    using a b by (simp add: algebra_simps)
  moreover have "0 < T1 + C1" "0 < T2 + C2" using assms by simp_all
  ultimately have "T1 * C1 / (T1 + C1) \<le> T2 * C2 / (T2 + C2)"
    by (simp add: field_simps)
  then show ?thesis by simp
qed

lemma mde_mono_core:
  fixes z V H1 H2 :: real
  assumes "0 \<le> z" "0 \<le> V" "0 < H1" "H1 \<le> H2"
  shows "z * sqrt (2 * V / H2) \<le> z * sqrt (2 * V / H1)"
proof -
  have "2 * V / H2 \<le> 2 * V / H1"
    using assms by (intro divide_left_mono) simp_all
  then show ?thesis using assms(1) by (intro mult_left_mono) simp_all
qed


lemma z_pos: "0 < zAlpha a" "0 < zBeta pw"
  by (simp_all add: zAlpha_def zBeta_def zAlpha_table_def zBeta_table_def or_default_def)

lemma mvm_nonneg:
  assumes "0 < sumScoreReliability p" "sumScoreReliability p < 1"
    "raschReliability p \<le> 1" "raterVarianceProp p \<le> 1"
  shows "\<exists>m. measurementVarianceMultiplier p = Num m \<and> 0 \<le> m"
  using assms by (simp add: measurementVarianceMultiplier_def Let_def)

lemma de_nonneg:
  assumes "0 < patientsPerCluster p" "controlAttrition p < 1"
    "0 \<le> iccHamd p" "iccHamd p \<le> 1"
  shows "\<exists>d. designEffectHamd p = Num d \<and> 0 \<le> d"
    and "\<exists>d. designEffectHamd_cv p = Num d \<and> 0 \<le> d"
proof -
  let ?x = "patientsPerCluster p * (1 - controlAttrition p)"
  have "0 \<le> ?x" using assms by simp
  then have "0 \<le> ?x * iccHamd p" using assms by simp
  moreover have "(?x - 1) * iccHamd p = ?x * iccHamd p - iccHamd p"
    by (simp only: left_diff_distrib mult_1)
  ultimately have d: "0 \<le> 1 + (?x - 1) * iccHamd p"
    using assms(4) by linarith
  then show "\<exists>d. designEffectHamd p = Num d \<and> 0 \<le> d"
    by (simp add: designEffectHamd_def)
  have "0 \<le> (1 + (?x - 1) * iccHamd p) * (1 + clusterSizeCV p * clusterSizeCV p)"
    using d by (intro mult_nonneg_nonneg) simp_all
  then show "\<exists>d. designEffectHamd_cv p = Num d \<and> 0 \<le> d"
    by (simp add: designEffectHamd_cv_def)
qed

lemma jdiv_Num: "b \<noteq> 0 \<Longrightarrow> jdiv (Num a) (Num b) = Num (a / b)"
  by simp

lemma jsqrt_Num: "0 \<le> a \<Longrightarrow> jsqrt (Num a) = Num (sqrt a)"
  by simp

lemma mde_expression_value:
  assumes "patientsPerCluster p \<noteq> 0" "treatmentRatio p + 1 \<noteq> 0"
    and "0 \<le> d" "0 \<le> m" "r2Hamd p \<le> 1"
    and "0 < completers p (nTreatmentZ p N)"
    and "0 < completers p (nClustersZ p N - nTreatmentZ p N)"
  shows
    "jmul (jadd (Num (zAlpha (alpha p))) (Num (zBeta (powerLevel p))))
       (jsqrt (jdiv
          (jmul (Num 2)
             (jmul (jdiv (jmul (jmul (jmul (Num 49) (jsub (Num 1) (Num (r2Hamd p)))) (Num d))
                            (Num 1.2)) (Num 1.43))
                   (Num m)))
          (jdiv
             (jmul (jmul (Num 2)
                (jmul (jmul (jround (jmul (jround (jdiv (Num N) (Num (patientsPerCluster p))))
                        (jdiv (Num (treatmentRatio p)) (jadd (Num (treatmentRatio p)) (Num 1)))))
                      (Num (patientsPerCluster p)))
                   (jsub (Num 1) (Num (controlAttrition p)))))
                (jmul (jmul (jsub (jround (jdiv (Num N) (Num (patientsPerCluster p))))
                          (jround (jmul (jround (jdiv (Num N) (Num (patientsPerCluster p))))
                             (jdiv (Num (treatmentRatio p))
                                (jadd (Num (treatmentRatio p)) (Num 1))))))
                      (Num (patientsPerCluster p)))
                   (jsub (Num 1) (Num (controlAttrition p)))))
             (jadd
                (jmul (jmul (jround (jmul (jround (jdiv (Num N) (Num (patientsPerCluster p))))
                        (jdiv (Num (treatmentRatio p)) (jadd (Num (treatmentRatio p)) (Num 1)))))
                      (Num (patientsPerCluster p)))
                   (jsub (Num 1) (Num (controlAttrition p))))
                (jmul (jmul (jsub (jround (jdiv (Num N) (Num (patientsPerCluster p))))
                          (jround (jmul (jround (jdiv (Num N) (Num (patientsPerCluster p))))
                             (jdiv (Num (treatmentRatio p))
                                (jadd (Num (treatmentRatio p)) (Num 1))))))
                      (Num (patientsPerCluster p)))
                   (jsub (Num 1) (Num (controlAttrition p))))))))
     = Num ((zAlpha (alpha p) + zBeta (powerLevel p))
         * sqrt (2 * (49 * (1 - r2Hamd p) * d * 1.2 / 1.43 * m)
                 / (2 * completers p (nTreatmentZ p N)
                      * completers p (nClustersZ p N - nTreatmentZ p N)
                    / (completers p (nTreatmentZ p N)
                       + completers p (nClustersZ p N - nTreatmentZ p N)))))"
proof -
  let ?T = "completers p (nTreatmentZ p N)"
  let ?C = "completers p (nClustersZ p N - nTreatmentZ p N)"
  let ?V = "49 * (1 - r2Hamd p) * d * 1.2 / 1.43 * m"
  have s: "?T + ?C \<noteq> 0" using assms(6,7) by simp
  have h: "0 < 2 * ?T * ?C / (?T + ?C)" using assms(6,7) by simp
  have v: "0 \<le> ?V" using assms(3,4,5) by simp
  have nn: "0 \<le> 2 * ?V / (2 * ?T * ?C / (?T + ?C))"
    using v h by (intro divide_nonneg_pos) simp_all
  have T: "jmul (jmul (Num (of_int (nTreatmentZ p N))) (Num (patientsPerCluster p)))
                (Num (1 - controlAttrition p)) = Num ?T"
    by (simp add: completers_def)
  have C: "jmul (jmul (Num (of_int (nClustersZ p N) - of_int (nTreatmentZ p N)))
                   (Num (patientsPerCluster p)))
                (Num (1 - controlAttrition p)) = Num ?C"
    by (simp add: completers_def)
  have k: "jround (jdiv (Num N) (Num (patientsPerCluster p))) = Num (of_int (nClustersZ p N))"
    using assms(1) by (simp add: nClustersZ_def)
  have t: "jround (jmul (Num (of_int (nClustersZ p N)))
             (jdiv (Num (treatmentRatio p)) (jadd (Num (treatmentRatio p)) (Num 1))))
           = Num (of_int (nTreatmentZ p N))"
    using assms(2) by (simp add: nTreatmentZ_def)
  have H: "jdiv (jmul (jmul (Num 2) (Num ?T)) (Num ?C)) (jadd (Num ?T) (Num ?C))
            = Num (2 * ?T * ?C / (?T + ?C))"
    by (simp only: jmul.simps jadd.simps jdiv_Num [OF s])
  have V: "jmul (jdiv (jmul (jmul (jmul (Num 49) (Num (1 - r2Hamd p))) (Num d)) (Num 1.2))
                  (Num 1.43)) (Num m) = Num ?V"
    by simp
  have D: "jdiv (jmul (Num 2) (Num ?V)) (Num (2 * ?T * ?C / (?T + ?C)))
            = Num (2 * ?V / (2 * ?T * ?C / (?T + ?C)))"
    by (simp only: jmul.simps jdiv_Num [OF less_imp_neq [THEN not_sym, OF h]])
  show ?thesis
    unfolding jsub_Num k t T C H V D
    by (simp only: jsqrt_Num [OF nn] jmul.simps jadd.simps)
qed

lemma hamd_mde_value:
  assumes "patientsPerCluster p \<noteq> 0" "treatmentRatio p + 1 \<noteq> 0"
    and "designEffectHamd p = Num d" "measurementVarianceMultiplier p = Num m"
    and "0 \<le> d" "0 \<le> m" "r2Hamd p \<le> 1"
    and "0 < completers p (nTreatmentZ p N)"
    and "0 < completers p (nClustersZ p N - nTreatmentZ p N)"
  shows "h_mde (calcHamdMDE p N) =
    Num ((zAlpha (alpha p) + zBeta (powerLevel p))
         * sqrt (2 * (49 * (1 - r2Hamd p) * d * 1.2 / 1.43 * m)
                 / (2 * completers p (nTreatmentZ p N)
                      * completers p (nClustersZ p N - nTreatmentZ p N)
                    / (completers p (nTreatmentZ p N)
                       + completers p (nClustersZ p N - nTreatmentZ p N)))))"
  unfolding calcHamdMDE_def Let_def hamd_result.simps assms(3,4)
  by (rule mde_expression_value [OF assms(1,2,5,6,7,8,9)])

lemma hamd_cv_mde_value:
  assumes "patientsPerCluster p \<noteq> 0" "treatmentRatio p + 1 \<noteq> 0"
    and "designEffectHamd_cv p = Num d" "measurementVarianceMultiplier p = Num m"
    and "0 \<le> d" "0 \<le> m" "r2Hamd p \<le> 1"
    and "0 < completers p (nTreatmentZ p N)"
    and "0 < completers p (nClustersZ p N - nTreatmentZ p N)"
  shows "h_mde (calcHamdMDE_cv p N) =
    Num ((zAlpha (alpha p) + zBeta (powerLevel p))
         * sqrt (2 * (49 * (1 - r2Hamd p) * d * 1.2 / 1.43 * m)
                 / (2 * completers p (nTreatmentZ p N)
                      * completers p (nClustersZ p N - nTreatmentZ p N)
                    / (completers p (nTreatmentZ p N)
                       + completers p (nClustersZ p N - nTreatmentZ p N)))))"
  unfolding calcHamdMDE_cv_def Let_def hamd_result.simps assms(3,4)
  by (rule mde_expression_value [OF assms(1,2,5,6,7,8,9)])


lemma completers_pos:
  assumes "0 < patientsPerCluster p" "controlAttrition p < 1" "1 \<le> k"
  shows "0 < completers p k"
  using assms by (simp add: completers_def)

lemma completers_mono:
  assumes "0 < patientsPerCluster p" "controlAttrition p < 1" "k \<le> l"
  shows "completers p k \<le> completers p l"
  using assms by (simp add: completers_def mult_right_mono)

text \<open>
  C2. For cells in the ranges of the data model (a positive cluster size and allocation
  ratio, attrition below 1, ICC and R-squared at most 1, reliabilities as proportions) and
  sample sizes totalN1 \<le> totalN2 that both give at least one treatment cluster and one
  control cluster, the mde of \<open>calcHamdMDE\<close> at totalN2 is at most the mde at totalN1;
  in both versions.
\<close>

theorem calcHamdMDE_mde_nonincreasing:
  assumes "0 < patientsPerCluster p" and "0 < treatmentRatio p"
    and "controlAttrition p < 1"
    and "0 \<le> iccHamd p" and "iccHamd p \<le> 1" and "r2Hamd p \<le> 1"
    and "0 < sumScoreReliability p" and "sumScoreReliability p < 1"
    and "raschReliability p \<le> 1" and "raterVarianceProp p \<le> 1"
    and "N1 \<le> N2"
    and "jle (Num 1) (h_nTreatmentClusters (calcHamdMDE p N1))"
    and "jle (Num 1) (h_nControlClusters (calcHamdMDE p N1))"
    and "jle (Num 1) (h_nTreatmentClusters (calcHamdMDE p N2))"
    and "jle (Num 1) (h_nControlClusters (calcHamdMDE p N2))"
  shows "jle (h_mde (calcHamdMDE p N2)) (h_mde (calcHamdMDE p N1))
         \<and> jle (h_mde (calcHamdMDE_cv p N2)) (h_mde (calcHamdMDE_cv p N1))"
proof -
  have ne: "patientsPerCluster p \<noteq> 0" "treatmentRatio p + 1 \<noteq> 0"
    using assms(1,2) by simp_all
  let ?t1 = "nTreatmentZ p N1" and ?t2 = "nTreatmentZ p N2"
  let ?c1 = "nClustersZ p N1 - nTreatmentZ p N1" and ?c2 = "nClustersZ p N2 - nTreatmentZ p N2"
  have g: "1 \<le> ?t1" "1 \<le> ?c1" "1 \<le> ?t2" "1 \<le> ?c2"
    using assms(12-15) unfolding hamd_counts [OF ne] by simp_all
  have mono: "?t1 \<le> ?t2" "?c1 \<le> ?c2"
    using counts_mono [OF assms(1,2,11)] by simp_all
  have T: "0 < completers p ?t1" "completers p ?t1 \<le> completers p ?t2"
    using completers_pos [OF assms(1,3) g(1)] completers_mono [OF assms(1,3) mono(1)]
    by simp_all
  have C: "0 < completers p ?c1" "completers p ?c1 \<le> completers p ?c2"
    using completers_pos [OF assms(1,3) g(2)] completers_mono [OF assms(1,3) mono(2)]
    by simp_all
  have T2: "0 < completers p ?t2" and C2: "0 < completers p ?c2"
    using T C by simp_all
  have H: "2 * completers p ?t1 * completers p ?c1 / (completers p ?t1 + completers p ?c1)
        \<le> 2 * completers p ?t2 * completers p ?c2 / (completers p ?t2 + completers p ?c2)"
    by (rule harmonic_mono [OF T C])
  have H1: "0 < 2 * completers p ?t1 * completers p ?c1 / (completers p ?t1 + completers p ?c1)"
    using T(1) C(1) by simp
  have z: "0 \<le> zAlpha (alpha p) + zBeta (powerLevel p)"
    using z_pos(1) [of "alpha p"] z_pos(2) [of "powerLevel p"] by simp
  obtain m where m: "measurementVarianceMultiplier p = Num m" "0 \<le> m"
    using mvm_nonneg [OF assms(7,8,9,10)] by blast
  obtain d where d: "designEffectHamd p = Num d" "0 \<le> d"
    using de_nonneg(1) [OF assms(1,3,4,5)] by blast
  obtain d' where d': "designEffectHamd_cv p = Num d'" "0 \<le> d'"
    using de_nonneg(2) [OF assms(1,3,4,5)] by blast
  have V: "0 \<le> 49 * (1 - r2Hamd p) * d * 1.2 / 1.43 * m"
    using d(2) m(2) assms(6) by simp
  have V': "0 \<le> 49 * (1 - r2Hamd p) * d' * 1.2 / 1.43 * m"
    using d'(2) m(2) assms(6) by simp
  have a: "jle (h_mde (calcHamdMDE p N2)) (h_mde (calcHamdMDE p N1))"
    unfolding hamd_mde_value [OF ne d(1) m(1) d(2) m(2) assms(6) T(1) C(1)]
      hamd_mde_value [OF ne d(1) m(1) d(2) m(2) assms(6) T2 C2] jle.simps
    by (rule mde_mono_core [OF z V H1 H])
  have b: "jle (h_mde (calcHamdMDE_cv p N2)) (h_mde (calcHamdMDE_cv p N1))"
    unfolding hamd_cv_mde_value [OF ne d'(1) m(1) d'(2) m(2) assms(6) T(1) C(1)]
      hamd_cv_mde_value [OF ne d'(1) m(1) d'(2) m(2) assms(6) T2 C2] jle.simps
    by (rule mde_mono_core [OF z V' H1 H])
  from a b show ?thesis by simp
qed

theorem calcHamdMDE_mde_nonincreasing_witness:
  "0 < patientsPerCluster defaults \<and> 0 < treatmentRatio defaults
   \<and> controlAttrition defaults < 1
   \<and> 0 \<le> iccHamd defaults \<and> iccHamd defaults \<le> 1 \<and> r2Hamd defaults \<le> 1
   \<and> 0 < sumScoreReliability defaults \<and> sumScoreReliability defaults < 1
   \<and> raschReliability defaults \<le> 1 \<and> raterVarianceProp defaults \<le> 1
   \<and> (400::real) \<le> 1000
   \<and> jle (Num 1) (h_nTreatmentClusters (calcHamdMDE defaults 400))
   \<and> jle (Num 1) (h_nControlClusters (calcHamdMDE defaults 400))
   \<and> jle (Num 1) (h_nTreatmentClusters (calcHamdMDE defaults 1000))
   \<and> jle (Num 1) (h_nControlClusters (calcHamdMDE defaults 1000))
   \<and> jle (h_mde (calcHamdMDE defaults 1000)) (h_mde (calcHamdMDE defaults 400))
   \<and> jle (h_mde (calcHamdMDE_cv defaults 1000)) (h_mde (calcHamdMDE_cv defaults 400))"
proof -
  have r: "0 < patientsPerCluster defaults" "0 < treatmentRatio defaults"
    "controlAttrition defaults < 1"
    "0 \<le> iccHamd defaults" "iccHamd defaults \<le> 1" "r2Hamd defaults \<le> 1"
    "0 < sumScoreReliability defaults" "sumScoreReliability defaults < 1"
    "raschReliability defaults \<le> 1" "raterVarianceProp defaults \<le> 1"
    by (simp_all add: defaults_def)
  have le: "(400::real) \<le> 1000" by simp
  have g: "jle (Num 1) (h_nTreatmentClusters (calcHamdMDE defaults 400))"
    "jle (Num 1) (h_nControlClusters (calcHamdMDE defaults 400))"
    "jle (Num 1) (h_nTreatmentClusters (calcHamdMDE defaults 1000))"
    "jle (Num 1) (h_nControlClusters (calcHamdMDE defaults 1000))"
    by (simp_all add: calcHamdMDE_def Let_def defaults_def)
  show ?thesis
    using r g calcHamdMDE_mde_nonincreasing [of defaults 400 1000] by simp
qed



section \<open>Sample size for a target effect\<close>

lemma loop_exit: "\<not> n \<le> 1300 \<Longrightarrow> findNForMDE_loop t f fld n = Text ''>1300''"
  by (subst findNForMDE_loop.simps) simp

lemma loop_hit:
  "n \<le> 1300 \<Longrightarrow> jle (fld (f (of_int n))) t \<Longrightarrow> findNForMDE_loop t f fld n = FoundN n"
  by (subst findNForMDE_loop.simps) (simp add: Let_def)

lemma loop_miss:
  "n \<le> 1300 \<Longrightarrow> \<not> jle (fld (f (of_int n))) t \<Longrightarrow>
    findNForMDE_loop t f fld n = findNForMDE_loop t f fld (n + 10)"
  by (subst findNForMDE_loop.simps) (simp add: Let_def)


lemma loop_found_sound:
  "findNForMDE_loop t f fld n = FoundN m \<Longrightarrow>
     n \<le> m \<and> m \<le> 1300 \<and> (m - n) mod 10 = 0 \<and> jle (fld (f (of_int m))) t
     \<and> (\<forall>k. n \<le> k \<and> k < m \<and> (k - n) mod 10 = 0 \<longrightarrow> \<not> jle (fld (f (of_int k))) t)"
proof (induction t f fld n rule: findNForMDE_loop.induct)
  case (1 t f fld n)
  have le: "n \<le> 1300"
  proof (rule ccontr)
    assume "\<not> n \<le> 1300"
    from loop_exit [where t = t and f = f and fld = fld, OF this] "1.prems" show False by simp
  qed
  show ?case
  proof (cases "jle (fld (f (of_int n))) t")
    case True
    from loop_hit [where t = t and f = f and fld = fld, OF le True] "1.prems" have mn: "m = n" by simp
    have "\<not> jle (fld (f (of_int k))) t" if "n \<le> k \<and> k < n \<and> (k - n) mod 10 = 0" for k
    proof -
      from that have False by linarith
      then show ?thesis ..
    qed
    then have "\<forall>k. n \<le> k \<and> k < n \<and> (k - n) mod 10 = 0 \<longrightarrow> \<not> jle (fld (f (of_int k))) t"
      by blast
    with le True show ?thesis unfolding mn by simp
  next
    case False
    from loop_miss [where t = t and f = f and fld = fld, OF le False] "1.prems"
    have "findNForMDE_loop t f fld (n + 10) = FoundN m" by simp
    from "1.IH" [OF le refl False this]
    have ih: "n + 10 \<le> m" "m \<le> 1300" "(m - (n + 10)) mod 10 = 0" "jle (fld (f (of_int m))) t"
      "\<forall>k. n + 10 \<le> k \<and> k < m \<and> (k - (n + 10)) mod 10 = 0 \<longrightarrow> \<not> jle (fld (f (of_int k))) t"
      by simp_all
    have "\<not> jle (fld (f (of_int k))) t" if k: "n \<le> k \<and> k < m \<and> (k - n) mod 10 = 0" for k
    proof (cases "k = n")
      case True
      with False show ?thesis by simp
    next
      case ne: False
      with k have "n + 10 \<le> k \<and> k < m \<and> (k - (n + 10)) mod 10 = 0" by presburger
      from ih(5) [THEN spec, THEN mp, OF this] show ?thesis .
    qed
    moreover have "n \<le> m" using ih(1) by simp
    moreover have "(m - n) mod 10 = 0" using ih(3) by presburger
    ultimately show ?thesis using ih(2,4) by blast
  qed
qed

lemma loop_text_sound:
  "findNForMDE_loop t f fld n = Text s \<Longrightarrow>
     s = ''>1300''
     \<and> (\<forall>k. n \<le> k \<and> k \<le> 1300 \<and> (k - n) mod 10 = 0 \<longrightarrow> \<not> jle (fld (f (of_int k))) t)"
proof (induction t f fld n rule: findNForMDE_loop.induct)
  case (1 t f fld n)
  show ?case
  proof (cases "n \<le> 1300")
    case False
    from loop_exit [where t = t and f = f and fld = fld, OF False] "1.prems" have "s = ''>1300''" by simp
    with False show ?thesis by auto
  next
    case le: True
    have miss: "\<not> jle (fld (f (of_int n))) t"
    proof
      assume "jle (fld (f (of_int n))) t"
      from loop_hit [where t = t and f = f and fld = fld, OF le this] "1.prems" show False by simp
    qed
    from loop_miss [where t = t and f = f and fld = fld, OF le miss] "1.prems"
    have "findNForMDE_loop t f fld (n + 10) = Text s" by simp
    from "1.IH" [OF le refl miss this]
    have ih: "s = ''>1300''"
      "\<forall>k. n + 10 \<le> k \<and> k \<le> 1300 \<and> (k - (n + 10)) mod 10 = 0 \<longrightarrow> \<not> jle (fld (f (of_int k))) t"
      by simp_all
    have "\<not> jle (fld (f (of_int k))) t" if k: "n \<le> k \<and> k \<le> 1300 \<and> (k - n) mod 10 = 0" for k
    proof (cases "k = n")
      case True
      with miss show ?thesis by simp
    next
      case ne: False
      with k have "n + 10 \<le> k \<and> k \<le> 1300 \<and> (k - (n + 10)) mod 10 = 0" by presburger
      from ih(2) [THEN spec, THEN mp, OF this] show ?thesis .
    qed
    with ih(1) show ?thesis by blast
  qed
qed


lemma findNForMDE_found_sound:
  assumes "findNForMDE t f fld = FoundN m"
  shows "on_grid m" and "jle (fld (f (of_int m))) t"
    and "on_grid k \<Longrightarrow> k < m \<Longrightarrow> \<not> jle (fld (f (of_int k))) t"
proof -
  note s = loop_found_sound [OF assms [unfolded findNForMDE_def]]
  from s show "on_grid m" by (simp add: on_grid_def)
  from s show "jle (fld (f (of_int m))) t" by simp
  assume "on_grid k" "k < m"
  then have "400 \<le> k \<and> k < m \<and> (k - 400) mod 10 = 0" by (simp add: on_grid_def)
  with s show "\<not> jle (fld (f (of_int k))) t" by simp
qed

lemma findNForMDE_text_sound:
  assumes "findNForMDE t f fld = Text s"
  shows "s = ''>1300''" and "on_grid k \<Longrightarrow> \<not> jle (fld (f (of_int k))) t"
proof -
  note s = loop_text_sound [OF assms [unfolded findNForMDE_def]]
  from s show "s = ''>1300''" by simp
  assume "on_grid k"
  then have "400 \<le> k \<and> k \<le> 1300 \<and> (k - 400) mod 10 = 0" by (simp add: on_grid_def)
  with s show "\<not> jle (fld (f (of_int k))) t" by simp
qed

lemma hamd_mde_nonneg_or_nan: "nonneg_or_nan (h_mde (calcHamdMDE p totalN))"
proof -
  have "0 \<le> zAlpha (alpha p) + zBeta (powerLevel p)"
    using z_pos(1) [of "alpha p"] z_pos(2) [of "powerLevel p"] by simp
  then show ?thesis
    by (simp add: calcHamdMDE_def Let_def nonneg_or_nan_jmul nonneg_or_nan_jsqrt)
qed

lemma nonneg_or_nan_not_below: "nonneg_or_nan x \<Longrightarrow> c < 0 \<Longrightarrow> \<not> jle x (Num c)"
  by (cases x) simp_all

text \<open>
  C9. \<open>findNForMDE\<close> scans 400, 410, ..., 1300 in ascending order and returns the
  smallest of these sample sizes whose selected field is \<open><=\<close> the target; when none
  is, it returns the string ">1300". It returns one or the other for every calculator,
  field and target: there is no other outcome.
\<close>

theorem findNForMDE_smallest_or_sentinel:
  "(findNForMDE t f fld = FoundN m \<longleftrightarrow>
      on_grid m \<and> jle (fld (f (of_int m))) t
      \<and> (\<forall>k. on_grid k \<and> k < m \<longrightarrow> \<not> jle (fld (f (of_int k))) t))
   \<and> (findNForMDE t f fld = Text ''>1300'' \<longleftrightarrow>
        (\<forall>k. on_grid k \<longrightarrow> \<not> jle (fld (f (of_int k))) t))
   \<and> ((\<exists>k. findNForMDE t f fld = FoundN k) \<or> findNForMDE t f fld = Text ''>1300'')"
proof (intro conjI)
  show total: "(\<exists>k. findNForMDE t f fld = FoundN k) \<or> findNForMDE t f fld = Text ''>1300''"
  proof (cases "findNForMDE t f fld")
    case (FoundN k)
    then show ?thesis by simp
  next
    case (Text s)
    with findNForMDE_text_sound(1) [OF Text] show ?thesis by simp
  qed
  show "findNForMDE t f fld = FoundN m \<longleftrightarrow>
      on_grid m \<and> jle (fld (f (of_int m))) t
      \<and> (\<forall>k. on_grid k \<and> k < m \<longrightarrow> \<not> jle (fld (f (of_int k))) t)"
  proof
    assume r: "findNForMDE t f fld = FoundN m"
    show "on_grid m \<and> jle (fld (f (of_int m))) t
      \<and> (\<forall>k. on_grid k \<and> k < m \<longrightarrow> \<not> jle (fld (f (of_int k))) t)"
      using findNForMDE_found_sound [OF r] by simp
  next
    assume a: "on_grid m \<and> jle (fld (f (of_int m))) t
      \<and> (\<forall>k. on_grid k \<and> k < m \<longrightarrow> \<not> jle (fld (f (of_int k))) t)"
    from total show "findNForMDE t f fld = FoundN m"
    proof
      assume "\<exists>k. findNForMDE t f fld = FoundN k"
      then obtain m' where r: "findNForMDE t f fld = FoundN m'" ..
      note s = findNForMDE_found_sound [OF r]
      have "\<not> m' < m"
      proof
        assume "m' < m"
        with a s(1) have "\<not> jle (fld (f (of_int m'))) t" by simp
        with s(2) show False by simp
      qed
      moreover have "\<not> m < m'"
      proof
        assume "m < m'"
        from s(3) [OF _ this] a show False by simp
      qed
      ultimately have "m' = m" by simp
      with r show ?thesis by simp
    next
      assume "findNForMDE t f fld = Text ''>1300''"
      from findNForMDE_text_sound(2) [OF this, of m] a show ?thesis by simp
    qed
  qed
  show "findNForMDE t f fld = Text ''>1300'' \<longleftrightarrow>
        (\<forall>k. on_grid k \<longrightarrow> \<not> jle (fld (f (of_int k))) t)"
  proof
    assume r: "findNForMDE t f fld = Text ''>1300''"
    show "\<forall>k. on_grid k \<longrightarrow> \<not> jle (fld (f (of_int k))) t"
      using findNForMDE_text_sound(2) [OF r] by simp
  next
    assume a: "\<forall>k. on_grid k \<longrightarrow> \<not> jle (fld (f (of_int k))) t"
    from total show "findNForMDE t f fld = Text ''>1300''"
    proof
      assume "\<exists>k. findNForMDE t f fld = FoundN k"
      then obtain m' where r: "findNForMDE t f fld = FoundN m'" ..
      from findNForMDE_found_sound(1,2) [OF r] a show ?thesis by simp
    qed
  qed
qed


theorem findNForMDE_smallest_or_sentinel_witness:
  "on_grid 400
   \<and> jle (h_mde (calcHamdMDE defaults (of_int 400))) (Num 3)
   \<and> findNForMDE (Num 3) (calcHamdMDE defaults) h_mde = FoundN 400
   \<and> findNForMDE (Num (- 1)) (calcHamdMDE defaults) h_mde = Text ''>1300''"
proof -
  define s :: real where
    "s = sqrt (2 * (49 * (1 - 0.35) * (1 + (10 * (1 - 0.3) - 1) * 0.04) * 1.2 / 1.43)
               / (2 * 210 * 70 / (210 + 70)))"
  have v: "h_mde (calcHamdMDE defaults (of_int 400)) = Num ((2.24 + 0.842) * s)"
    unfolding s_def
    by (simp add: calcHamdMDE_def defaults_def Let_def designEffectHamd_def
        measurementVarianceMultiplier_sum
        zAlpha_def zBeta_def zAlpha_table_def zBeta_table_def or_default_def)
  have "s \<le> 9 / 10"
    unfolding s_def by (rule real_le_lsqrt) (simp_all add: power2_eq_square)
  then have hit: "jle (h_mde (calcHamdMDE defaults (of_int 400))) (Num 3)"
    unfolding v by simp
  have g: "on_grid 400" by (simp add: on_grid_def)
  have "\<not> (on_grid k \<and> k < 400)" for k
    unfolding on_grid_def by linarith
  then have first: "\<forall>k. on_grid k \<and> k < 400 \<longrightarrow>
      \<not> jle (h_mde (calcHamdMDE defaults (of_int k))) (Num 3)"
    by blast
  have none: "\<forall>k. on_grid k \<longrightarrow>
      \<not> jle (h_mde (calcHamdMDE defaults (of_int k))) (Num (- 1))"
    by (simp add: nonneg_or_nan_not_below hamd_mde_nonneg_or_nan)
  from g hit first none
    findNForMDE_smallest_or_sentinel [of "Num 3" "calcHamdMDE defaults" h_mde 400]
    findNForMDE_smallest_or_sentinel [of "Num (- 1)" "calcHamdMDE defaults" h_mde 400]
  show ?thesis by simp
qed

section \<open>Z-score lookup\<close>

text \<open>
  C5. The lookup returns 1.96, 2.24, 2.58 at alpha 0.05, 0.025, 0.01 and 0.524, 0.674,
  0.842, 1.036, 1.282 at power 0.70, 0.75, 0.80, 0.85, 0.90; at every other number it
  returns the fallback, 2.24 for alpha and 0.842 for power. The lookup is a total
  function: there is no failing branch.
\<close>

theorem z_lookup_table_and_fallback:
  "zAlpha 0.05 = 1.96 \<and> zAlpha 0.025 = 2.24 \<and> zAlpha 0.01 = 2.58
   \<and> zBeta 0.7 = 0.524 \<and> zBeta 0.75 = 0.674 \<and> zBeta 0.8 = 0.842
   \<and> zBeta 0.85 = 1.036 \<and> zBeta 0.9 = 1.282
   \<and> (a \<notin> {0.05, 0.025, 0.01} \<longrightarrow> zAlpha a = 2.24)
   \<and> (pw \<notin> {0.7, 0.75, 0.8, 0.85, 0.9} \<longrightarrow> zBeta pw = 0.842)"
  by (simp add: zAlpha_def zBeta_def zAlpha_table_def zBeta_table_def or_default_def)

theorem z_lookup_table_and_fallback_witness:
  "(0.03::real) \<notin> {0.05, 0.025, 0.01} \<and> zAlpha 0.03 = 2.24
   \<and> (0.95::real) \<notin> {0.7, 0.75, 0.8, 0.85, 0.9} \<and> zBeta 0.95 = 0.842"
  using z_lookup_table_and_fallback [of "0.03" "0.95"] by simp

end
